theory Spec2Isabelle
  imports Main
begin

section \<open>Promises and the values exchanged with the collaborators\<close>

text \<open>
  A settled promise is fulfilled with a value or rejected with a reason (\<open>any\<close> in the
  source; a string here). A promise is pending (\<open>None\<close>) or settled.
\<close>

type_synonym reason = string

datatype 'a outcome = Fulfilled 'a | Rejected reason

type_synonym 'a promise = "'a outcome option"

text \<open>\<open>mode: 'run' | 'debug' | 'repl'\<close>\<close>

datatype mode = Run | Debug | Repl

type_synonym ExtensionContext = nat
type_synonym ServicePseudoTerminal = nat
type_synonym Terminal = nat
type_synonym MessageConnection = nat
type_synonym ApiServiceConnection = nat
type_synonym SyncPort = nat
type_synonym bytes = "nat list"
type_synonym PathMapping = "(string \<times> string) list"

datatype DebugCharacterDeviceDriver = DebugCharacterDeviceDriver (uri: string)

text \<open>\<open>type LauncherState = { mode; pty; program? }\<close>\<close>

record LauncherState =
  mode :: mode
  pty :: ServicePseudoTerminal
  program :: "string option"

text \<open>
  The three overloads of \<open>doRun\<close> (launcher.ts, lines 119 to 121) are the only argument
  shapes the type checker admits: a program for \<open>run\<close> and \<open>debug\<close>, the debug ports and
  the terminator for \<open>debug\<close> only, neither for \<open>repl\<close>. So the non-null assertions
  \<open>program!\<close>, \<open>debugPorts!\<close> and \<open>terminator!\<close> of the body never see \<open>undefined\<close>.
\<close>

datatype doRun_args =
    RunArgs ExtensionContext ServicePseudoTerminal string
  | DebugArgs ExtensionContext ServicePseudoTerminal string DebugCharacterDeviceDriver string
  | ReplArgs ExtensionContext ServicePseudoTerminal

fun mode_of :: "doRun_args \<Rightarrow> mode" where
  "mode_of (RunArgs context p prog) = Run"
| "mode_of (DebugArgs context p prog debugPorts terminator) = Debug"
| "mode_of (ReplArgs context p) = Repl"

fun context_of :: "doRun_args \<Rightarrow> ExtensionContext" where
  "context_of (RunArgs context p prog) = context"
| "context_of (DebugArgs context p prog debugPorts terminator) = context"
| "context_of (ReplArgs context p) = context"

fun pty_of :: "doRun_args \<Rightarrow> ServicePseudoTerminal" where
  "pty_of (RunArgs context p prog) = p"
| "pty_of (DebugArgs context p prog debugPorts terminator) = p"
| "pty_of (ReplArgs context p) = p"

fun program_of :: "doRun_args \<Rightarrow> string option" where
  "program_of (RunArgs context p prog) = Some prog"
| "program_of (DebugArgs context p prog debugPorts terminator) = Some prog"
| "program_of (ReplArgs context p) = None"

text \<open>
  The requests of \<open>MessageRequests\<close> that the launcher sends, with their parameters:
  \<open>initialize {pythonRepository, pythonRoot, binary}\<close>, \<open>executeFile {syncPort, file}\<close>,
  \<open>debugFile {syncPort, file, uri, terminator}\<close>, \<open>runRepl {syncPort}\<close>.
\<close>

datatype request =
    Initialize string string bytes
  | ExecuteFile SyncPort string
  | DebugFile SyncPort string string string
  | RunRepl SyncPort

datatype device = PtyDevice ServicePseudoTerminal | DebugDevice DebugCharacterDeviceDriver

text \<open>
  Every call the launcher makes on a collaborator (PythonInstallation, the message
  connection, the ApiService, its own abstract methods, the exit callbacks, the terminal,
  the path-mapping emitter) is recorded, in the order of the calls. \<open>SendRequest r ts\<close> is
  \<open>messageConnection.sendRequest\<close> with the transfer list \<open>ts\<close>.
\<close>

datatype event =
    GetConfig
  | SharedWasmBytes
  | CreateMessageConnection ExtensionContext
  | Listen
  | OnNotification string
  | SendRequest request "SyncPort list"
  | CreateSyncConnection MessageConnection
  | NewApiService string ApiServiceConnection
  | RegisterCharacterDeviceDriver device bool
  | SignalReady
  | ExitResolveCallback int
  | ExitRejectCallback reason
  | TerminateConnection
  | SendText string bool
  | FirePathMapping PathMapping

section \<open>The launcher and the frame of its one doRun call\<close>

text \<open>
  Where \<open>doRun\<close> is suspended. \<open>AwaitAll\<close>, \<open>AwaitInitialize\<close> and \<open>AwaitSyncConnection\<close> are
  its three \<open>await\<close>s; \<open>Threw\<close> is the frame after an awaited promise rejected. After the
  function has returned, the reactions registered on \<open>runRequest\<close> by
  \<open>.then(..).catch(..).finally(..)\<close> run one after the other, each as a job of its own:
  \<open>ThenReaction out\<close> when \<open>runRequest\<close> has settled with \<open>out\<close>, \<open>CatchReaction r\<close> when
  the promise of \<open>.then\<close> has settled (rejected with \<open>r\<close>, or fulfilled for \<open>None\<close>),
  \<open>FinallyReaction\<close> when the promise of \<open>.catch\<close> has settled.
\<close>

datatype pc =
    NotCalled
  | AwaitAll
  | AwaitInitialize
  | AwaitSyncConnection
  | AwaitRunRequest
  | ThenReaction "int outcome"
  | CatchReaction "reason option"
  | FinallyReaction
  | ChainDone
  | Threw

text \<open>
  The fields of \<open>BaseLauncher\<close> (\<open>exitPromise\<close>, \<open>terminal\<close>, \<open>state\<close>), then the frame of
  \<open>doRun\<close>: its arguments, the values \<open>Promise.all\<close> has collected so far, the promise the
  async function returned to the caller of \<open>run\<close>, \<open>debug\<close> or \<open>startRepl\<close>, and the calls
  made so far.
\<close>

record launcher =
  exitPromise :: "int promise"
  terminal :: "Terminal option"
  state :: "LauncherState option"
  pc :: pc
  args :: "doRun_args option"
  allConfig :: "(string \<times> string) option"
  allWasmBytes :: "bytes option"
  allConnection :: "MessageConnection option"
  doRunPromise :: "unit promise"
  trace :: "event list"

text \<open>The constructor: the exit promise is pending, \<open>terminal\<close> and \<open>state\<close> are undefined.\<close>

definition new_launcher :: launcher where
  "new_launcher = \<lparr> exitPromise = None, terminal = None, state = None, pc = NotCalled,
     args = None, allConfig = None, allWasmBytes = None, allConnection = None,
     doRunPromise = None, trace = [] \<rparr>"

definition emit :: "event list \<Rightarrow> launcher \<Rightarrow> launcher" where
  "emit es s = s\<lparr>trace := trace s @ es\<rparr>"

text \<open>
  The two callbacks the constructor takes from \<open>new Promise\<close>. A promise settles once:
  a resolving function called on a settled promise changes nothing.
\<close>

definition exitResolveCallback :: "int \<Rightarrow> launcher \<Rightarrow> launcher" where
  "exitResolveCallback rval s =
     emit [ExitResolveCallback rval]
       (s\<lparr>exitPromise := (case exitPromise s of None \<Rightarrow> Some (Fulfilled rval) | Some out \<Rightarrow> Some out)\<rparr>)"

definition exitRejectCallback :: "reason \<Rightarrow> launcher \<Rightarrow> launcher" where
  "exitRejectCallback r s =
     emit [ExitRejectCallback r]
       (s\<lparr>exitPromise := (case exitPromise s of None \<Rightarrow> Some (Rejected r) | Some out \<Rightarrow> Some out)\<rparr>)"

text \<open>\<open>terminateConnection\<close> is abstract in \<open>BaseLauncher\<close>: the call is all there is here.\<close>

definition terminateConnection :: "launcher \<Rightarrow> launcher" where
  "terminateConnection s = emit [TerminateConnection] s"

text \<open>\<open>terminate()\<close>, lines 171 to 176.\<close>

definition terminate :: "launcher \<Rightarrow> launcher" where
  "terminate s =
     terminateConnection
       (case terminal s of
          Some t \<Rightarrow> emit [SendText ''Execution terminated'' True] s
        | None \<Rightarrow> s)"

text \<open>
  \<open>doRun\<close> up to its first \<open>await\<close> (lines 123 and 124): the state is stored and the three
  boot operations are started, in the order of the array.
\<close>

definition bootCalls :: "doRun_args \<Rightarrow> event list" where
  "bootCalls a = [GetConfig, SharedWasmBytes, CreateMessageConnection (context_of a)]"

definition doRun :: "doRun_args \<Rightarrow> launcher \<Rightarrow> launcher" where
  "doRun a s =
     emit (bootCalls a)
       (s\<lparr>state := Some \<lparr>mode = mode_of a, pty = pty_of a, program = program_of a\<rparr>,
          args := Some a, pc := AwaitAll\<rparr>)"

definition run :: "ExtensionContext \<Rightarrow> string \<Rightarrow> ServicePseudoTerminal \<Rightarrow> launcher \<Rightarrow> launcher" where
  "run context prog p s = doRun (RunArgs context p prog) s"

definition debug :: "ExtensionContext \<Rightarrow> string \<Rightarrow> ServicePseudoTerminal \<Rightarrow>
    DebugCharacterDeviceDriver \<Rightarrow> string \<Rightarrow> launcher \<Rightarrow> launcher" where
  "debug context prog p debugPorts terminator s =
     doRun (DebugArgs context p prog debugPorts terminator) s"

definition startRepl :: "ExtensionContext \<Rightarrow> ServicePseudoTerminal \<Rightarrow> launcher \<Rightarrow> launcher" where
  "startRepl context p s = doRun (ReplArgs context p) s"

text \<open>An awaited promise rejected: the async function's own promise rejects with the reason.\<close>

definition throw :: "reason \<Rightarrow> launcher \<Rightarrow> launcher" where
  "throw r s = s\<lparr>pc := Threw, doRunPromise := Some (Rejected r)\<rparr>"

text \<open>
  \<open>Promise.all\<close> fulfils when its three promises have: then lines 126 to 135 run
  (\<open>listen\<close>, the \<open>pathMappings\<close> handler, the \<open>initialize\<close> request, which has no transfer
  list). \<open>repository.toString(true)\<close> is the string the repository is represented by.
\<close>

definition initCalls :: "string \<Rightarrow> string \<Rightarrow> bytes \<Rightarrow> event list" where
  "initCalls repository root sharedWasmBytes =
     [Listen, OnNotification ''pathMappings'',
      SendRequest (Initialize repository root sharedWasmBytes) []]"

definition afterAll :: "launcher \<Rightarrow> launcher" where
  "afterAll s =
     (case (allConfig s, allWasmBytes s, allConnection s) of
        (Some (repository, root), Some sharedWasmBytes, Some messageConnection) \<Rightarrow>
          emit (initCalls repository root sharedWasmBytes) (s\<lparr>pc := AwaitInitialize\<rparr>)
      | _ \<Rightarrow> s)"

text \<open>Line 137, once \<open>initialize\<close> is acknowledged.\<close>

definition afterInitialize :: "launcher \<Rightarrow> launcher" where
  "afterInitialize s =
     (case allConnection s of
        Some messageConnection \<Rightarrow> emit [CreateSyncConnection messageConnection] (s\<lparr>pc := AwaitSyncConnection\<rparr>)
      | None \<Rightarrow> s)"

text \<open>The conditional of lines 150 to 154.\<close>

fun runRequest :: "doRun_args \<Rightarrow> SyncPort \<Rightarrow> request" where
  "runRequest (RunArgs context p prog) port = ExecuteFile port prog"
| "runRequest (DebugArgs context p prog debugPorts terminator) port =
     DebugFile port prog (uri debugPorts) terminator"
| "runRequest (ReplArgs context p) port = RunRepl port"

text \<open>Lines 144 to 147.\<close>

fun registerDrivers :: "doRun_args \<Rightarrow> event list" where
  "registerDrivers (DebugArgs context p prog debugPorts terminator) =
     [RegisterCharacterDeviceDriver (PtyDevice p) True,
      RegisterCharacterDeviceDriver (DebugDevice debugPorts) False]"
| "registerDrivers a = [RegisterCharacterDeviceDriver (PtyDevice (pty_of a)) True]"

text \<open>
  Lines 138 to 160, once the sync connection is there: the ApiService, the drivers,
  \<open>signalReady\<close>, the run request with the port in its transfer list; the reactions are
  registered and the function returns, which fulfils its promise.
\<close>

definition runCalls :: "doRun_args \<Rightarrow> ApiServiceConnection \<Rightarrow> SyncPort \<Rightarrow> event list" where
  "runCalls a syncConnection port =
     [NewApiService ''Python WASM Execution'' syncConnection] @ registerDrivers a @
     [SignalReady, SendRequest (runRequest a port) [port]]"

definition afterSyncConnection :: "ApiServiceConnection \<Rightarrow> SyncPort \<Rightarrow> launcher \<Rightarrow> launcher" where
  "afterSyncConnection syncConnection port s =
     (case args s of
        Some a \<Rightarrow>
          emit (runCalls a syncConnection port)
            (s\<lparr>pc := AwaitRunRequest, doRunPromise := Some (Fulfilled ())\<rparr>)
      | None \<Rightarrow> s)"

text \<open>
  What can happen to a launcher: a call of one of its public methods, the settling of a
  promise it waits for, the next job of the reaction chain, a \<open>pathMappings\<close> notification
  from the worker. A promise settles once, and nobody is told of a promise that is not
  awaited: such inputs change nothing.

  The frame followed is that of the first call of \<open>run\<close>, \<open>debug\<close> or \<open>startRepl\<close>. The
  source has no guard against a later call on the same launcher: it would start a second
  frame of \<open>doRun\<close>, with a channel of its own, that overwrites \<open>state\<close> and shares the
  exit callbacks of the constructor. That second frame is outside this development (the
  spec leaves reuse to the caller's ownership discipline). So whatever is said below of
  the launcher as a whole, rather than of the one frame, is said under the hypothesis
  \<open>oneCall\<close>, that at most one of the three methods is called.
\<close>

datatype input =
    CallRun ExtensionContext string ServicePseudoTerminal
  | CallDebug ExtensionContext string ServicePseudoTerminal DebugCharacterDeviceDriver string
  | CallStartRepl ExtensionContext ServicePseudoTerminal
  | CallTerminate
  | GetConfigSettled "(string \<times> string) outcome"
  | SharedWasmBytesSettled "bytes outcome"
  | CreateMessageConnectionSettled "MessageConnection outcome"
  | InitializeSettled "unit outcome"
  | CreateSyncConnectionSettled "(ApiServiceConnection \<times> SyncPort) outcome"
  | RunRequestSettled "int outcome"
  | Microtask
  | PathMappingsNotification PathMapping

definition reaction :: "launcher \<Rightarrow> launcher" where
  "reaction s =
     (case pc s of
        ThenReaction (Fulfilled rval) \<Rightarrow> exitResolveCallback rval (s\<lparr>pc := CatchReaction None\<rparr>)
      | ThenReaction (Rejected r) \<Rightarrow> s\<lparr>pc := CatchReaction (Some r)\<rparr>
      | CatchReaction (Some r) \<Rightarrow> exitRejectCallback r (s\<lparr>pc := FinallyReaction\<rparr>)
      | CatchReaction None \<Rightarrow> s\<lparr>pc := FinallyReaction\<rparr>
      | FinallyReaction \<Rightarrow> terminateConnection (s\<lparr>pc := ChainDone\<rparr>)
      | _ \<Rightarrow> s)"

fun step :: "input \<Rightarrow> launcher \<Rightarrow> launcher" where
  "step (CallRun context prog p) s =
     (if pc s = NotCalled then run context prog p s else s)"
| "step (CallDebug context prog p debugPorts terminator) s =
     (if pc s = NotCalled then debug context prog p debugPorts terminator s else s)"
| "step (CallStartRepl context p) s =
     (if pc s = NotCalled then startRepl context p s else s)"
| "step CallTerminate s = terminate s"
| "step (GetConfigSettled out) s =
     (if pc s = AwaitAll \<and> allConfig s = None
      then (case out of Fulfilled c \<Rightarrow> afterAll (s\<lparr>allConfig := Some c\<rparr>) | Rejected r \<Rightarrow> throw r s)
      else s)"
| "step (SharedWasmBytesSettled out) s =
     (if pc s = AwaitAll \<and> allWasmBytes s = None
      then (case out of Fulfilled b \<Rightarrow> afterAll (s\<lparr>allWasmBytes := Some b\<rparr>) | Rejected r \<Rightarrow> throw r s)
      else s)"
| "step (CreateMessageConnectionSettled out) s =
     (if pc s = AwaitAll \<and> allConnection s = None
      then (case out of Fulfilled c \<Rightarrow> afterAll (s\<lparr>allConnection := Some c\<rparr>) | Rejected r \<Rightarrow> throw r s)
      else s)"
| "step (InitializeSettled out) s =
     (if pc s = AwaitInitialize
      then (case out of Fulfilled u \<Rightarrow> afterInitialize s | Rejected r \<Rightarrow> throw r s)
      else s)"
| "step (CreateSyncConnectionSettled out) s =
     (if pc s = AwaitSyncConnection
      then (case out of
              Fulfilled (syncConnection, port) \<Rightarrow> afterSyncConnection syncConnection port s
            | Rejected r \<Rightarrow> throw r s)
      else s)"
| "step (RunRequestSettled out) s =
     (if pc s = AwaitRunRequest then s\<lparr>pc := ThenReaction out\<rparr> else s)"
| "step Microtask s = reaction s"
| "step (PathMappingsNotification mapping) s =
     (if OnNotification ''pathMappings'' \<in> set (trace s) then emit [FirePathMapping mapping] s else s)"

definition exec :: "input list \<Rightarrow> launcher \<Rightarrow> launcher" where
  "exec ins s = foldl (\<lambda>s i. step i s) s ins"

text \<open>The calls of the three public methods that start a session.\<close>

fun isCall :: "input \<Rightarrow> bool" where
  "isCall (CallRun context prog p) = True"
| "isCall (CallDebug context prog p debugPorts terminator) = True"
| "isCall (CallStartRepl context p) = True"
| "isCall i = False"

definition oneCall :: "input list \<Rightarrow> bool" where
  "oneCall ins \<longleftrightarrow> length (filter isCall ins) \<le> 1"

text \<open>The call that gives \<open>doRun\<close> these arguments, and the arguments of the first call made.\<close>

fun callOf :: "doRun_args \<Rightarrow> input" where
  "callOf (RunArgs context p prog) = CallRun context prog p"
| "callOf (DebugArgs context p prog debugPorts terminator) = CallDebug context prog p debugPorts terminator"
| "callOf (ReplArgs context p) = CallStartRepl context p"

fun firstCall :: "input list \<Rightarrow> doRun_args option" where
  "firstCall [] = None"
| "firstCall (CallRun context prog p # ins) = Some (RunArgs context p prog)"
| "firstCall (CallDebug context prog p debugPorts terminator # ins) =
     Some (DebugArgs context p prog debugPorts terminator)"
| "firstCall (CallStartRepl context p # ins) = Some (ReplArgs context p)"
| "firstCall (i # ins) = firstCall ins"

section \<open>Observations on a trace\<close>

text \<open>The invocations of the two exit callbacks, of whichever kind.\<close>

fun isExit :: "event \<Rightarrow> bool" where
  "isExit (ExitResolveCallback rval) = True"
| "isExit (ExitRejectCallback r) = True"
| "isExit e = False"

text \<open>The callback that the reactions invoke for an outcome of the run request.\<close>

fun exitEvent :: "int outcome \<Rightarrow> event" where
  "exitEvent (Fulfilled rval) = ExitResolveCallback rval"
| "exitEvent (Rejected r) = ExitRejectCallback r"

fun isTeardown :: "event \<Rightarrow> bool" where
  "isTeardown TerminateConnection = True"
| "isTeardown e = False"

fun isSendText :: "event \<Rightarrow> bool" where
  "isSendText (SendText t b) = True"
| "isSendText e = False"



text \<open>The three mode-specific requests, as opposed to \<open>initialize\<close>.\<close>

fun isRunRequest :: "request \<Rightarrow> bool" where
  "isRunRequest (Initialize repository root b) = False"
| "isRunRequest r = True"


text \<open>The requests sent on the message connection, in the order they were sent.\<close>

fun sentRequests :: "event list \<Rightarrow> request list" where
  "sentRequests [] = []"
| "sentRequests (SendRequest r ts # es) = r # sentRequests es"
| "sentRequests (e # es) = sentRequests es"

text \<open>The ports handed over in transfer lists, and the ports \<open>createSyncConnection\<close> made.\<close>

fun transferred :: "event list \<Rightarrow> SyncPort list" where
  "transferred [] = []"
| "transferred (SendRequest r ts # es) = ts @ transferred es"
| "transferred (e # es) = transferred es"

fun createdPorts :: "input list \<Rightarrow> SyncPort list" where
  "createdPorts [] = []"
| "createdPorts (CreateSyncConnectionSettled (Fulfilled (syncConnection, port)) # ins) =
     port # createdPorts ins"
| "createdPorts (i # ins) = createdPorts ins"

text \<open>
  \<open>precedes P Q es\<close>: nothing that satisfies \<open>Q\<close> happens in \<open>es\<close> until something that
  satisfies \<open>P\<close> has happened.
\<close>

fun precedes :: "('a \<Rightarrow> bool) \<Rightarrow> ('a \<Rightarrow> bool) \<Rightarrow> 'a list \<Rightarrow> bool" where
  "precedes P Q [] = True"
| "precedes P Q (e # es) = (P e \<or> (\<not> Q e \<and> precedes P Q es))"

section \<open>Invariants of a session\<close>

text \<open>
  The calls \<open>doRun\<close> and its reactions make themselves, as opposed to the ones an outside
  caller of \<open>terminate\<close> or a notification of the worker adds at any moment (the
  \<open>terminateConnection\<close> of the \<open>finally\<close> reaction is left out with them).
\<close>

fun isOwn :: "event \<Rightarrow> bool" where
  "isOwn TerminateConnection = False"
| "isOwn (SendText t b) = False"
| "isOwn (FirePathMapping m) = False"
| "isOwn e = True"

definition booted :: "launcher \<Rightarrow> event list \<Rightarrow> bool" where
  "booted s rest \<longleftrightarrow>
     (\<exists>a repository root b m. args s = Some a \<and> allConfig s = Some (repository, root) \<and>
        allWasmBytes s = Some b \<and> allConnection s = Some m \<and>
        filter isOwn (trace s) = bootCalls a @ initCalls repository root b @ rest)"

definition started :: "launcher \<Rightarrow> event list \<Rightarrow> bool" where
  "started s rest \<longleftrightarrow>
     (\<exists>a repository root b m syncConnection port.
        args s = Some a \<and> allConfig s = Some (repository, root) \<and>
        allWasmBytes s = Some b \<and> allConnection s = Some m \<and>
        doRunPromise s = Some (Fulfilled ()) \<and>
        filter isOwn (trace s) =
          bootCalls a @ initCalls repository root b @ [CreateSyncConnection m] @
          runCalls a syncConnection port @ rest)"

text \<open>What the launcher has done so far, for each place \<open>doRun\<close> can be at.\<close>

definition shape :: "launcher \<Rightarrow> bool" where
  "shape s \<longleftrightarrow>
     (case pc s of
        NotCalled \<Rightarrow> args s = None \<and> filter isOwn (trace s) = [] \<and> exitPromise s = None \<and>
          doRunPromise s = None
      | AwaitAll \<Rightarrow> (\<exists>a. args s = Some a \<and> filter isOwn (trace s) = bootCalls a) \<and>
          exitPromise s = None \<and> doRunPromise s = None
      | AwaitInitialize \<Rightarrow> booted s [] \<and> exitPromise s = None \<and> doRunPromise s = None
      | AwaitSyncConnection \<Rightarrow>
          (\<exists>m. allConnection s = Some m \<and> booted s [CreateSyncConnection m]) \<and>
          exitPromise s = None \<and> doRunPromise s = None
      | AwaitRunRequest \<Rightarrow> started s [] \<and> exitPromise s = None
      | ThenReaction out \<Rightarrow> started s [] \<and> exitPromise s = None
      | CatchReaction ro \<Rightarrow>
          (case ro of
             Some r \<Rightarrow> started s [] \<and> exitPromise s = None
           | None \<Rightarrow>
               (case exitPromise s of
                  Some (Fulfilled rval) \<Rightarrow> started s [ExitResolveCallback rval]
                | _ \<Rightarrow> False))
      | FinallyReaction \<Rightarrow>
          (case exitPromise s of Some out \<Rightarrow> started s [exitEvent out] | None \<Rightarrow> False)
      | ChainDone \<Rightarrow>
          (case exitPromise s of Some out \<Rightarrow> started s [exitEvent out] | None \<Rightarrow> False) \<and>
          TerminateConnection \<in> set (trace s)
      | Threw \<Rightarrow> exitPromise s = None \<and> (\<exists>r. doRunPromise s = Some (Rejected r)) \<and>
          ((\<exists>a. args s = Some a \<and> filter isOwn (trace s) = bootCalls a) \<or> booted s [] \<or>
           (\<exists>m. allConnection s = Some m \<and> booted s [CreateSyncConnection m])))"

text \<open>What the state remembers was delivered to it.\<close>

definition hist :: "input list \<Rightarrow> launcher \<Rightarrow> bool" where
  "hist ins s \<longleftrightarrow>
     terminal s = None \<and>
     (\<forall>c. allConfig s = Some c \<longrightarrow> GetConfigSettled (Fulfilled c) \<in> set ins) \<and>
     (\<forall>b. allWasmBytes s = Some b \<longrightarrow> SharedWasmBytesSettled (Fulfilled b) \<in> set ins) \<and>
     (\<forall>m. allConnection s = Some m \<longrightarrow> CreateMessageConnectionSettled (Fulfilled m) \<in> set ins) \<and>
     (\<forall>out. pc s = ThenReaction out \<longrightarrow> RunRequestSettled out \<in> set ins) \<and>
     (\<forall>r. pc s = CatchReaction (Some r) \<longrightarrow> RunRequestSettled (Rejected r) \<in> set ins) \<and>
     (\<forall>out. exitPromise s = Some out \<longrightarrow> RunRequestSettled out \<in> set ins) \<and>
     set (transferred (trace s)) \<subseteq> set (createdPorts ins) \<and>
     filter isSendText (trace s) = []"

text \<open>
  Without a call of \<open>terminate()\<close> from outside, \<open>terminateConnection\<close> is called by the
  \<open>finally\<close> reaction only.
\<close>

definition tear :: "launcher \<Rightarrow> bool" where
  "tear s \<longleftrightarrow>
     (pc s \<noteq> ChainDone \<longrightarrow> filter isTeardown (trace s) = []) \<and>
     precedes isExit isTeardown (trace s)"

section \<open>Concrete sessions\<close>

text \<open>A boot in which everything succeeds, up to the sync connection and its port 5.\<close>

definition bootInputs :: "input list" where
  "bootInputs =
     [GetConfigSettled (Fulfilled (''repo'', ''/root'')), SharedWasmBytesSettled (Fulfilled [0, 1]),
      CreateMessageConnectionSettled (Fulfilled 3), InitializeSettled (Fulfilled ()),
      CreateSyncConnectionSettled (Fulfilled (4, 5))]"

text \<open>Scenario A of the spec: \<open>app.py\<close> is run and the worker answers \<open>executeFile\<close> with 0.\<close>

definition runSession :: "input list" where
  "runSession =
     CallRun 1 ''app.py'' 7 # bootInputs @ [RunRequestSettled (Fulfilled 0), Microtask, Microtask, Microtask]"

text \<open>A debug session whose run request the worker fails.\<close>

definition debugSession :: "input list" where
  "debugSession =
     CallDebug 1 ''app.py'' 7 (DebugCharacterDeviceDriver ''debug:1'') ''(Pdb)'' # bootInputs @
     [RunRequestSettled (Rejected ''worker crashed''), Microtask, Microtask, Microtask]"

text \<open>A REPL session that is still running.\<close>

definition replSession :: "input list" where
  "replSession = CallStartRepl 1 7 # bootInputs"

text \<open>The worker fails the \<open>initialize\<close> request; the caller then calls \<open>terminate()\<close>.\<close>

definition initializeFails :: "input list" where
  "initializeFails =
     [CallRun 1 ''app.py'' 7, GetConfigSettled (Fulfilled (''repo'', ''/root'')),
      SharedWasmBytesSettled (Fulfilled [0, 1]), CreateMessageConnectionSettled (Fulfilled 3),
      InitializeSettled (Rejected ''worker failed''), CallTerminate, Microtask]"

text \<open>Scenario C of the spec: the image fetch (\<open>getConfig\<close>) fails during boot.\<close>

definition imageFetchFails :: "input list" where
  "imageFetchFails =
     [CallRun 1 ''app.py'' 7, GetConfigSettled (Rejected ''image unavailable''),
      SharedWasmBytesSettled (Fulfilled [0, 1]), CreateMessageConnectionSettled (Fulfilled 3),
      Microtask]"

text \<open>Scenario A up to the moment the \<open>then\<close> reaction has resolved the exit promise.\<close>

definition settledSession :: "input list" where
  "settledSession = CallRun 1 ''app.py'' 7 # bootInputs @ [RunRequestSettled (Fulfilled 0), Microtask]"





section \<open>The environment preload and the code that awaits it\<close>

text \<open>
  A call of a collaborator returns or throws. An \<open>await\<close> on what it returned goes on with
  the value (\<open>Normal\<close>), throws the rejection reason (\<open>Abrupt\<close>), or never resumes because
  the promise stays pending (\<open>Suspended\<close>). An async function that completes normally
  fulfils its promise, one that throws rejects it, one that is suspended for ever leaves
  it pending.
\<close>

datatype 'a returned = Returns 'a | Throws reason

datatype 'a completion = Normal 'a | Abrupt reason | Suspended

fun await :: "'a promise \<Rightarrow> 'a completion" where
  "await None = Suspended"
| "await (Some (Fulfilled v)) = Normal v"
| "await (Some (Rejected r)) = Abrupt r"

fun awaitCall :: "'a promise returned \<Rightarrow> 'a completion" where
  "awaitCall (Throws r) = Abrupt r"
| "awaitCall (Returns p) = await p"

fun async :: "'a completion \<Rightarrow> 'a promise" where
  "async (Normal v) = Some (Fulfilled v)"
| "async (Abrupt r) = Some (Rejected r)"
| "async Suspended = None"

type_synonym Uri = string

text \<open>
  \<open>type RemoteHubApiStub = { loadWorkspaceContents?(workspaceUri: Uri): Promise<boolean> }\<close>:
  the method may be missing. An extension is what its \<open>activate()\<close> does.
\<close>

record RemoteHubApiStub =
  loadWorkspaceContents :: "(Uri \<Rightarrow> bool promise returned) option"

record Extension =
  activate :: "RemoteHubApiStub promise returned"

text \<open>What the preload reads from the host: the installed extensions and the file system.\<close>

record host =
  getExtension :: "string \<Rightarrow> Extension option"
  readFile :: "Uri \<Rightarrow> bytes promise returned"

datatype preload_event =
    Activate
  | LoadWorkspaceContents Uri
  | ReadFile Uri
  | ConsoleLog reason

text \<open>\<open>getRemoteHubExtension\<close>: the first of the three extensions that is installed.\<close>

definition getRemoteHubExtension :: "host \<Rightarrow> Extension option" where
  "getRemoteHubExtension h =
     (case getExtension h ''ms-vscode.remote-repositories'' of
        Some e \<Rightarrow> Some e
      | None \<Rightarrow>
          (case getExtension h ''GitHub.remoteHub'' of
             Some e \<Rightarrow> Some e
           | None \<Rightarrow> getExtension h ''GitHub.remoteHub-insiders''))"

definition joinPath :: "Uri \<Rightarrow> string \<Rightarrow> Uri" where
  "joinPath u segment = u @ ''/'' @ segment"

text \<open>\<open>Uri.parse('vscode-vfs://github/dbaeumer/python-3.11.0rc')\<close>, line 117.\<close>

definition pythonUri :: Uri where
  "pythonUri = ''vscode-vfs://github/dbaeumer/python-3.11.0rc''"

text \<open>
  The body of the \<open>try\<close> block of \<open>preloadPython\<close>, with the calls it has made. The
  promise that \<open>readFile\<close> returns is dropped (\<open>void\<close>, line 119): it is not awaited, so
  the block sees a throw of the call itself and nothing of what becomes of the promise.
\<close>

definition preloadBody :: "host \<Rightarrow> unit completion \<times> preload_event list" where
  "preloadBody h =
     (case getRemoteHubExtension h of
        None \<Rightarrow> (Normal (), [])
      | Some remoteHub \<Rightarrow>
          (case awaitCall (activate remoteHub) of
             Abrupt error \<Rightarrow> (Abrupt error, [Activate])
           | Suspended \<Rightarrow> (Suspended, [Activate])
           | Normal remoteHubApi \<Rightarrow>
               (case loadWorkspaceContents remoteHubApi of
                  None \<Rightarrow> (Normal (), [Activate])
                | Some load \<Rightarrow>
                    (case awaitCall (load pythonUri) of
                       Abrupt error \<Rightarrow> (Abrupt error, [Activate, LoadWorkspaceContents pythonUri])
                     | Suspended \<Rightarrow> (Suspended, [Activate, LoadWorkspaceContents pythonUri])
                     | Normal loaded \<Rightarrow>
                         (case readFile h (joinPath pythonUri ''python.wasm'') of
                            Throws error \<Rightarrow>
                              (Abrupt error,
                               [Activate, LoadWorkspaceContents pythonUri,
                                ReadFile (joinPath pythonUri ''python.wasm'')])
                          | Returns p \<Rightarrow>
                              (Normal (),
                               [Activate, LoadWorkspaceContents pythonUri,
                                ReadFile (joinPath pythonUri ''python.wasm'')]))))))"

text \<open>
  \<open>preloadPython\<close>: the \<open>try\<close> block, and the \<open>catch\<close> clause, which logs the error and
  completes normally.
\<close>

definition preloadPython :: "host \<Rightarrow> unit promise \<times> preload_event list" where
  "preloadPython h =
     (case preloadBody h of
        (Abrupt error, es) \<Rightarrow> (async (Normal ()), es @ [ConsoleLog error])
      | (c, es) \<Rightarrow> (async c, es))"

text \<open>
  The three kinds of code that await the preload promise. Each starts with
  \<open>await preloadPromise\<close> (the command handlers once they have a target).
\<close>

record DebugConfiguration =
  config_type :: "string option"
  config_request :: "string option"
  config_name :: "string option"
  config_program :: "string option"
  config_stopOnEntry :: "bool option"

text \<open>JavaScript's \<open>!x\<close> for an optional string: undefined or empty.\<close>

definition falsy :: "string option \<Rightarrow> bool" where
  "falsy x \<longleftrightarrow> x = None \<or> x = Some []"

text \<open>
  \<open>resolveDebugConfiguration\<close>, lines 22 to 41. \<open>editor\<close> is the language of the active
  text editor, if there is one; \<open>showInformationMessage\<close> is what the call of
  \<open>window.showInformationMessage\<close> does. First the defaults of lines 24 to 33, then the
  function from line 24 on, then the whole of it, which starts with the \<open>await\<close>.
\<close>

definition defaultConfiguration :: "string option \<Rightarrow> DebugConfiguration \<Rightarrow> DebugConfiguration" where
  "defaultConfiguration editor config =
     (if falsy (config_type config) \<and> falsy (config_request config) \<and> falsy (config_name config)
      then (case editor of
              Some languageId \<Rightarrow>
                if languageId = ''python''
                then config\<lparr>config_type := Some ''python-web-wasm'', config_name := Some ''Launch'',
                       config_request := Some ''launch'', config_program := Some ''${file}'',
                       config_stopOnEntry := Some False\<rparr>
                else config
            | None \<Rightarrow> config)
      else config)"

definition resolveAfterPreload ::
    "string option \<Rightarrow> string option promise returned \<Rightarrow> DebugConfiguration \<Rightarrow>
     DebugConfiguration option completion" where
  "resolveAfterPreload editor showInformationMessage config =
     (if falsy (config_program (defaultConfiguration editor config))
      then (case awaitCall showInformationMessage of
              Abrupt r \<Rightarrow> Abrupt r
            | Suspended \<Rightarrow> Suspended
            | Normal choice \<Rightarrow> Normal None)
      else Normal (Some (defaultConfiguration editor config)))"

definition resolveDebugConfiguration ::
    "unit promise \<Rightarrow> string option \<Rightarrow> string option promise returned \<Rightarrow> DebugConfiguration \<Rightarrow>
     DebugConfiguration option promise" where
  "resolveDebugConfiguration preloadPromise editor showInformationMessage config =
     async
       (case await preloadPromise of
          Abrupt r \<Rightarrow> Abrupt r
        | Suspended \<Rightarrow> Suspended
        | Normal u \<Rightarrow> resolveAfterPreload editor showInformationMessage config)"

text \<open>\<open>createDebugAdapterDescriptor\<close>, lines 47 to 50: the inline adapter for the session.\<close>

datatype DebugAdapterDescriptor = DebugAdapterInlineImplementation nat ExtensionContext

definition createDebugAdapterDescriptor ::
    "unit promise \<Rightarrow> ExtensionContext \<Rightarrow> nat \<Rightarrow> DebugAdapterDescriptor promise" where
  "createDebugAdapterDescriptor preloadPromise context session =
     async
       (case await preloadPromise of
          Abrupt r \<Rightarrow> Abrupt r
        | Suspended \<Rightarrow> Suspended
        | Normal u \<Rightarrow> Normal (DebugAdapterInlineImplementation session context))"

text \<open>
  The handlers of the commands \<open>runEditorContents\<close> and \<open>debugEditorContents\<close>, lines 56 to
  91: the target is the resource or else the document of the active editor; without a
  target the handler returns false, and with one it awaits the preload and returns what
  \<open>debug.startDebugging\<close> gives for the target.
\<close>

definition editorContentsCommand ::
    "unit promise \<Rightarrow> Uri option \<Rightarrow> Uri option \<Rightarrow> (Uri \<Rightarrow> bool promise returned) \<Rightarrow> bool promise" where
  "editorContentsCommand preloadPromise resource activeDocument startDebugging =
     async
       (case (case resource of Some r \<Rightarrow> Some r | None \<Rightarrow> activeDocument) of
          None \<Rightarrow> Normal False
        | Some targetResource \<Rightarrow>
            (case await preloadPromise of
               Abrupt r \<Rightarrow> Abrupt r
             | Suspended \<Rightarrow> Suspended
             | Normal u \<Rightarrow> awaitCall (startDebugging targetResource)))"

fun isConsoleLog :: "preload_event \<Rightarrow> bool" where
  "isConsoleLog (ConsoleLog error) = True"
| "isConsoleLog e = False"

text \<open>
  A host on which the extension activates and loads the workspace contents, and the
  promise of \<open>readFile\<close> for \<open>python.wasm\<close> rejects.
\<close>

definition unloggedHost :: host where
  "unloggedHost =
     \<lparr> getExtension = (\<lambda>name. if name = ''GitHub.remoteHub''
          then Some \<lparr> activate = Returns (Some (Fulfilled
                 \<lparr> loadWorkspaceContents = Some (\<lambda>u. Returns (Some (Fulfilled True))) \<rparr>)) \<rparr>
          else None),
       readFile = (\<lambda>u. Returns (Some (Rejected ''fetch failed''))) \<rparr>"

text \<open>A host on which the promise of \<open>activate()\<close> never settles.\<close>

definition hangingHost :: host where
  "hangingHost =
     \<lparr> getExtension = (\<lambda>name. if name = ''GitHub.remoteHub-insiders''
          then Some \<lparr> activate = Returns None \<rparr> else None),
       readFile = (\<lambda>u. Returns None) \<rparr>"

text \<open>A host on which the remote repositories extension is installed and fails to activate.\<close>

definition failingHost :: host where
  "failingHost =
     \<lparr> getExtension = (\<lambda>name. if name = ''ms-vscode.remote-repositories''
          then Some \<lparr> activate = Returns (Some (Rejected ''activation failed'')) \<rparr> else None),
       readFile = (\<lambda>u. Returns None) \<rparr>"

section \<open>Lemmas: the trace observations\<close>

lemmas launcher_defs = run_def debug_def startRepl_def doRun_def afterAll_def afterInitialize_def
  afterSyncConnection_def reaction_def terminate_def terminateConnection_def emit_def throw_def
  exitResolveCallback_def exitRejectCallback_def

lemmas calls = bootCalls_def initCalls_def runCalls_def

lemmas sessions = bootInputs_def runSession_def debugSession_def replSession_def

lemma exec_snoc: "exec (ins @ [i]) s = step i (exec ins s)"
  by (simp add: exec_def)

lemma exec_Cons: "exec (i # ins) s = exec ins (step i s)"
  by (simp add: exec_def)

lemma exec_Nil: "exec [] s = s"
  by (simp add: exec_def)

lemma transferred_append [simp]: "transferred (xs @ ys) = transferred xs @ transferred ys"
  by (induction xs rule: transferred.induct) simp_all

lemma createdPorts_append [simp]: "createdPorts (xs @ ys) = createdPorts xs @ createdPorts ys"
  by (induction xs rule: createdPorts.induct) simp_all

lemma transferred_bootCalls [simp]: "transferred (bootCalls a) = []"
  by (simp add: bootCalls_def)

lemma transferred_initCalls [simp]: "transferred (initCalls repository root b) = []"
  by (simp add: initCalls_def)

lemma transferred_runCalls [simp]: "transferred (runCalls a syncConnection port) = [port]"
  by (cases a) (simp_all add: runCalls_def)

lemma sendText_calls [simp]:
  "filter isSendText (bootCalls a) = []"
  "filter isSendText (initCalls repository root b) = []"
  "filter isSendText (runCalls a syncConnection port) = []"
  by (cases a; simp add: bootCalls_def initCalls_def runCalls_def)+

lemma own_bootCalls [simp]: "filter isOwn (bootCalls a) = bootCalls a"
  by (simp add: bootCalls_def)

lemma own_initCalls [simp]:
  "filter isOwn (initCalls repository root b) = initCalls repository root b"
  by (simp add: initCalls_def)

lemma own_runCalls [simp]:
  "filter isOwn (runCalls a syncConnection port) = runCalls a syncConnection port"
  by (cases a) (simp_all add: runCalls_def)

lemma ex_runCalls [simp]:
  "\<exists>syncConnection port. runCalls a x y = runCalls a syncConnection port"
  by blast

lemma filter_own: "(\<And>e. P e \<Longrightarrow> isOwn e) \<Longrightarrow> filter P (filter isOwn xs) = filter P xs"
  by (induction xs) auto

lemma sentRequests_own: "sentRequests (filter isOwn xs) = sentRequests xs"
  by (induction xs rule: sentRequests.induct) simp_all




lemma isExit_own: "isExit e \<Longrightarrow> isOwn e"
  by (cases e) simp_all




lemma isRunRequest_runRequest [simp]: "isRunRequest (runRequest a port)"
  by (cases a) simp_all

section \<open>Lemmas: the invariants hold in every state a session reaches\<close>

lemma hist_init: "hist [] new_launcher"
  by (simp add: hist_def new_launcher_def)

lemma hist_step: "hist ins s \<Longrightarrow> hist (ins @ [i]) (step i s)"
  by (cases i; cases "pc s")
     (auto simp: hist_def launcher_defs split: outcome.splits option.splits prod.splits)

lemma shape_init: "shape new_launcher"
  by (simp add: shape_def new_launcher_def)

lemma shape_step: "shape s \<Longrightarrow> shape (step i s)"
  by (cases i; cases "pc s")
     (auto simp: shape_def launcher_defs started_def booted_def
           split: outcome.splits option.splits prod.splits)

lemma reach: "shape (exec ins new_launcher) \<and> hist ins (exec ins new_launcher)"
proof (induction ins rule: rev_induct)
  case Nil
  show ?case by (simp add: exec_def shape_init hist_init)
next
  case (snoc i ins)
  then show ?case by (simp add: exec_snoc shape_step hist_step)
qed

text \<open>The six forms the launcher's own calls can have, as a case rule.\<close>

lemma own_forms:
  assumes "shape s"
  obtains
    (idle) "pc s = NotCalled" "args s = None" "filter isOwn (trace s) = []"
      "exitPromise s = None" "doRunPromise s = None"
  | (boot) a where "pc s = AwaitAll \<or> pc s = Threw" "args s = Some a"
      "filter isOwn (trace s) = bootCalls a" "exitPromise s = None" "doRunPromise s \<noteq> Some (Fulfilled ())"
  | (init) a repository root b m where "pc s = AwaitInitialize \<or> pc s = Threw" "args s = Some a"
      "allConfig s = Some (repository, root)" "allWasmBytes s = Some b" "allConnection s = Some m"
      "filter isOwn (trace s) = bootCalls a @ initCalls repository root b"
      "exitPromise s = None" "doRunPromise s \<noteq> Some (Fulfilled ())"
  | (sync) a repository root b m where "pc s = AwaitSyncConnection \<or> pc s = Threw" "args s = Some a"
      "allConfig s = Some (repository, root)" "allWasmBytes s = Some b" "allConnection s = Some m"
      "filter isOwn (trace s) = bootCalls a @ initCalls repository root b @ [CreateSyncConnection m]"
      "exitPromise s = None" "doRunPromise s \<noteq> Some (Fulfilled ())"
  | (run) a repository root b m syncConnection port where
      "pc s = AwaitRunRequest \<or> (\<exists>out. pc s = ThenReaction out) \<or> (\<exists>r. pc s = CatchReaction (Some r))"
      "args s = Some a"
      "allConfig s = Some (repository, root)" "allWasmBytes s = Some b" "allConnection s = Some m"
      "filter isOwn (trace s) = bootCalls a @ initCalls repository root b @ [CreateSyncConnection m] @
         runCalls a syncConnection port"
      "exitPromise s = None" "doRunPromise s = Some (Fulfilled ())"
  | (exit) a repository root b m syncConnection port out where
      "pc s = CatchReaction None \<or> pc s = FinallyReaction \<or> pc s = ChainDone"
      "args s = Some a"
      "allConfig s = Some (repository, root)" "allWasmBytes s = Some b" "allConnection s = Some m"
      "filter isOwn (trace s) = bootCalls a @ initCalls repository root b @ [CreateSyncConnection m] @
         runCalls a syncConnection port @ [exitEvent out]"
      "exitPromise s = Some out" "doRunPromise s = Some (Fulfilled ())"
proof (cases "pc s")
  case NotCalled
  then show ?thesis using assms idle by (auto simp: shape_def)
next
  case AwaitAll
  then show ?thesis using assms boot by (auto simp: shape_def)
next
  case AwaitInitialize
  then show ?thesis using assms init by (auto simp: shape_def booted_def)
next
  case AwaitSyncConnection
  then show ?thesis using assms sync by (auto simp: shape_def booted_def)
next
  case AwaitRunRequest
  then show ?thesis using assms run by (auto simp: shape_def started_def)
next
  case (ThenReaction out)
  then show ?thesis using assms run by (auto simp: shape_def started_def)
next
  case (CatchReaction ro)
  show ?thesis
  proof (cases ro)
    case None
    then show ?thesis using assms CatchReaction exit [where out = "Fulfilled rval" for rval]
      by (auto simp: shape_def started_def split: option.splits outcome.splits)
  next
    case (Some r)
    then show ?thesis using assms CatchReaction run by (auto simp: shape_def started_def)
  qed
next
  case FinallyReaction
  then show ?thesis using assms exit by (auto simp: shape_def started_def split: option.splits)
next
  case ChainDone
  then show ?thesis using assms exit by (auto simp: shape_def started_def split: option.splits)
next
  case Threw
  then show ?thesis using assms boot init sync by (auto simp: shape_def booted_def)
qed

section \<open>Lemmas: teardown, failed boots and repeated termination\<close>

lemma precedes_append:
  "precedes P Q (xs @ ys) \<longleftrightarrow> precedes P Q xs \<and> ((\<exists>x\<in>set xs. P x) \<or> precedes P Q ys)"
  by (induction xs) auto

lemma precedes_no_Q: "filter Q xs = [] \<Longrightarrow> precedes P Q xs"
  by (induction xs) (auto split: if_splits)

lemma teardown_calls [simp]:
  "filter isTeardown (bootCalls a) = []"
  "filter isTeardown (initCalls repository root b) = []"
  "filter isTeardown (runCalls a syncConnection port) = []"
  by (cases a; simp add: bootCalls_def initCalls_def runCalls_def)+

lemma exit_seen: "shape s \<Longrightarrow> pc s = FinallyReaction \<Longrightarrow> \<exists>e\<in>set (trace s). isExit e"
proof -
  assume "shape s" "pc s = FinallyReaction"
  then obtain out where "started s [exitEvent out]"
    by (auto simp: shape_def split: option.splits)
  then obtain pre where eq: "filter isOwn (trace s) = pre @ [exitEvent out]"
    unfolding started_def by (metis append.assoc)
  have "exitEvent out \<in> set (filter isOwn (trace s))"
    unfolding eq by simp
  then have "exitEvent out \<in> set (trace s)"
    by simp
  moreover have "isExit (exitEvent out)"
    by (cases out) simp_all
  ultimately show ?thesis by blast
qed

lemma tear_init: "tear new_launcher"
  by (simp add: tear_def new_launcher_def)

lemma tear_step:
  assumes "tear s" and "shape s" and "i \<noteq> CallTerminate"
  shows "tear (step i s)"
proof (cases "i = Microtask \<and> pc s = FinallyReaction")
  case True
  then show ?thesis using assms exit_seen [of s]
    by (auto simp: tear_def launcher_defs precedes_append)
next
  case False
  then show ?thesis using assms
    by (cases i; cases "pc s")
       (auto simp: tear_def launcher_defs precedes_append precedes_no_Q
             split: outcome.splits option.splits prod.splits)
qed

lemma tear_reach: "CallTerminate \<notin> set ins \<Longrightarrow> tear (exec ins new_launcher)"
proof (induction ins rule: rev_induct)
  case Nil
  show ?case by (simp add: exec_def tear_init)
next
  case (snoc i ins)
  then show ?case
    using reach [of ins] tear_step [of "exec ins new_launcher" i] by (auto simp: exec_snoc)
qed

lemma sentRequests_append [simp]: "sentRequests (xs @ ys) = sentRequests xs @ sentRequests ys"
  by (induction xs rule: sentRequests.induct) simp_all

lemma threw_step:
  "pc s = Threw \<Longrightarrow>
     pc (step i s) = Threw \<and> exitPromise (step i s) = exitPromise s \<and>
     doRunPromise (step i s) = doRunPromise s \<and>
     sentRequests (trace (step i s)) = sentRequests (trace s) \<and>
     filter isExit (trace (step i s)) = filter isExit (trace s)"
  by (cases i) (auto simp: launcher_defs split: option.splits)

lemma threw_forever:
  "pc s = Threw \<Longrightarrow>
     pc (exec later s) = Threw \<and> exitPromise (exec later s) = exitPromise s \<and>
     doRunPromise (exec later s) = doRunPromise s \<and>
     sentRequests (trace (exec later s)) = sentRequests (trace s) \<and>
     filter isExit (trace (exec later s)) = filter isExit (trace s)"
proof (induction later arbitrary: s)
  case Nil
  then show ?case by (simp add: exec_Nil)
next
  case (Cons i later)
  have st: "pc (step i s) = Threw"
    using threw_step [OF Cons.prems, of i] by simp
  show ?case
    using Cons.IH [OF st] threw_step [OF Cons.prems, of i] by (simp add: exec_Cons)
qed

lemma terminate_no_terminal:
  "terminal s = None \<Longrightarrow> terminate s = s\<lparr>trace := trace s @ [TerminateConnection]\<rparr>"
  by (simp add: launcher_defs)

lemma terminate_repeated:
  "terminal s = None \<Longrightarrow>
     exec (replicate n CallTerminate) s = s\<lparr>trace := trace s @ replicate n TerminateConnection\<rparr>"
proof (induction n arbitrary: s)
  case 0
  show ?case by (simp add: exec_Nil)
next
  case (Suc n)
  have "terminal (terminate s) = None"
    using Suc.prems by (simp add: terminate_no_terminal)
  from Suc.IH [OF this] show ?case
    using Suc.prems by (simp add: exec_Cons terminate_no_terminal replicate_app_Cons_same)
qed

section \<open>Lemmas: a launcher that is called once\<close>

lemma firstCall_append:
  "firstCall (xs @ ys) = (case firstCall xs of Some a \<Rightarrow> Some a | None \<Rightarrow> firstCall ys)"
  by (induction xs rule: firstCall.induct) simp_all

lemma firstCall_callOf [simp]: "firstCall (callOf a # ins) = Some a"
  by (cases a) simp_all


lemma no_call_firstCall: "filter isCall ins = [] \<Longrightarrow> firstCall ins = None"
  by (induction ins rule: firstCall.induct) simp_all


lemma args_step:
  "args (step i s) = (if pc s = NotCalled then firstCall [i] else args s) \<and>
   (pc (step i s) = NotCalled \<longleftrightarrow> pc s = NotCalled \<and> firstCall [i] = None)"
  if "pc s = NotCalled \<longrightarrow> args s = None"
  using that
  by (cases i; cases "pc s")
     (auto simp: launcher_defs split: outcome.splits option.splits prod.splits)

lemma args_firstCall:
  "args (exec ins new_launcher) = firstCall ins \<and>
   (pc (exec ins new_launcher) = NotCalled \<longleftrightarrow> firstCall ins = None)"
proof (induction ins rule: rev_induct)
  case Nil
  show ?case by (simp add: exec_def new_launcher_def)
next
  case (snoc i ins)
  have "pc (exec ins new_launcher) = NotCalled \<longrightarrow> args (exec ins new_launcher) = None"
    using snoc by simp
  from args_step [OF this, of i] snoc show ?case
    by (auto simp: exec_snoc firstCall_append split: option.splits)
qed






text \<open>
  Under \<open>oneCall\<close> every call finds a launcher that has not been called: it is executed
  by \<open>run\<close>, \<open>debug\<close> or \<open>startRepl\<close> as in the source, and the other branch of \<open>step\<close> is
  never taken.
\<close>

lemma one_call_is_executed:
  assumes "oneCall (ins @ [i])" and "isCall i"
  shows "pc (exec ins new_launcher) = NotCalled"
proof -
  from assms have "filter isCall ins = []"
    by (simp add: oneCall_def)
  then have "firstCall ins = None"
    by (rule no_call_firstCall)
  then show ?thesis
    by (simp add: args_firstCall)
qed



section \<open>Lemmas: the preload\<close>

lemma preloadPython_cases:
  "preloadPython h =
     (case fst (preloadBody h) of
        Abrupt error \<Rightarrow> (Some (Fulfilled ()), snd (preloadBody h) @ [ConsoleLog error])
      | Normal u \<Rightarrow> (Some (Fulfilled ()), snd (preloadBody h))
      | Suspended \<Rightarrow> (None, snd (preloadBody h)))"
  by (cases "preloadBody h"; cases "fst (preloadBody h)") (simp_all add: preloadPython_def)

section \<open>The claims\<close>

text \<open>
  Claim C4. In every session and for all three modes, \<open>initialize\<close> is the first request
  sent on the message channel: whenever any request has been sent, the first one is
  \<open>initialize\<close>, every later one is a run request (so \<open>initialize\<close> precedes every other
  request), and by then each of the three boot operations (\<open>getConfig\<close>,
  \<open>sharedWasmBytes\<close>, \<open>createMessageConnection\<close>) has fulfilled, with the very values the
  request carries.
\<close>

theorem initialize_is_first_request:
  assumes "s = exec ins new_launcher"
  shows "sentRequests (trace s) = [] \<or>
         (\<exists>repository root b m others.
            sentRequests (trace s) = Initialize repository root b # others \<and>
            list_all isRunRequest others \<and>
            GetConfigSettled (Fulfilled (repository, root)) \<in> set ins \<and>
            SharedWasmBytesSettled (Fulfilled b) \<in> set ins \<and>
            CreateMessageConnectionSettled (Fulfilled m) \<in> set ins)"
proof -
  have sh: "shape s" and hi: "hist ins s"
    using assms reach by simp_all
  have req: "sentRequests (trace s) = sentRequests (filter isOwn (trace s))"
    by (simp add: sentRequests_own)
  from sh show ?thesis
  proof (cases rule: own_forms)
    case idle
    then show ?thesis by (simp add: req)
  next
    case (boot a)
    then show ?thesis by (simp add: req calls)
  next
    case (init a repository root b m)
    then show ?thesis using hi by (auto simp: req calls hist_def)
  next
    case (sync a repository root b m)
    then show ?thesis using hi by (auto simp: req calls hist_def)
  next
    case (run a repository root b m syncConnection port)
    then show ?thesis using hi by (cases a) (auto simp: req calls hist_def)
  next
    case (exit a repository root b m syncConnection port out)
    then show ?thesis using hi by (cases a; cases out) (auto simp: req calls hist_def)
  qed
qed

theorem initialize_is_first_request_witness:
  "sentRequests (trace (exec runSession new_launcher)) =
     Initialize ''repo'' ''/root'' [0, 1] # [ExecuteFile 5 ''app.py''] \<and>
   list_all isRunRequest [ExecuteFile 5 ''app.py''] \<and>
   GetConfigSettled (Fulfilled (''repo'', ''/root'')) \<in> set runSession \<and>
   SharedWasmBytesSettled (Fulfilled [0, 1]) \<in> set runSession \<and>
   CreateMessageConnectionSettled (Fulfilled 3) \<in> set runSession"
  using initialize_is_first_request [OF refl, of runSession]
  by (simp add: sessions exec_def launcher_defs calls new_launcher_def)










text \<open>
  Claim C8 fails as stated: \<open>terminate()\<close> has no guard. In the session below the exit
  promise has been resolved with 0 (the session is settled) and \<open>terminateConnection\<close> has
  not been called yet; \<open>terminate()\<close> then calls it (so it is not a no-op), and a second
  \<open>terminate()\<close> calls it again. After the whole of scenario A, \<open>terminate()\<close> still
  changes the launcher.
\<close>

theorem terminate_when_settled_counterexample:
  "exitPromise (exec settledSession new_launcher) = Some (Fulfilled 0) \<and>
   filter isTeardown (trace (exec settledSession new_launcher)) = [] \<and>
   trace (terminate (exec settledSession new_launcher)) =
     trace (exec settledSession new_launcher) @ [TerminateConnection] \<and>
   trace (terminate (terminate (exec settledSession new_launcher))) =
     trace (exec settledSession new_launcher) @ [TerminateConnection, TerminateConnection] \<and>
   terminate (exec runSession new_launcher) \<noteq> exec runSession new_launcher"
  by (simp add: sessions settledSession_def exec_def launcher_defs calls new_launcher_def)

text \<open>
  Claim C8, as amended. \<open>terminate()\<close> never resolves or rejects the completion promise,
  on a first call or on a repeated one: it invokes neither exit callback. Every call, in
  whatever state the session is (also once it is settled), calls \<open>terminateConnection()\<close>
  once and does nothing else, so \<open>n\<close> calls in succession make \<open>n\<close> calls of
  \<open>terminateConnection()\<close>: a second call is harmless only as far as the abstract
  \<open>terminateConnection()\<close> is idempotent.
\<close>

theorem terminate_calls_terminateConnection_each_time:
  assumes s: "s = exec ins new_launcher"
  shows "exec (replicate n CallTerminate) s = s\<lparr>trace := trace s @ replicate n TerminateConnection\<rparr> \<and>
         exitPromise (exec (replicate n CallTerminate) s) = exitPromise s \<and>
         filter isExit (trace (exec (replicate n CallTerminate) s)) = filter isExit (trace s) \<and>
         length (filter isTeardown (trace (exec (replicate n CallTerminate) s))) =
           length (filter isTeardown (trace s)) + n"
proof -
  have "hist ins s"
    using s reach by simp
  then have "terminal s = None"
    by (simp add: hist_def)
  then have "exec (replicate n CallTerminate) s = s\<lparr>trace := trace s @ replicate n TerminateConnection\<rparr>"
    by (rule terminate_repeated)
  then show ?thesis
    by simp
qed

theorem terminate_calls_terminateConnection_each_time_witness:
  "exec (replicate 2 CallTerminate) (exec runSession new_launcher) =
     (exec runSession new_launcher)
       \<lparr>trace := trace (exec runSession new_launcher) @ [TerminateConnection, TerminateConnection]\<rparr> \<and>
   exitPromise (exec (replicate 2 CallTerminate) (exec runSession new_launcher)) = Some (Fulfilled 0) \<and>
   length (filter isTeardown (trace (exec (replicate 2 CallTerminate) (exec runSession new_launcher)))) = 3"
  using terminate_calls_terminateConnection_each_time [OF refl, where ins = runSession and n = 2]
  by (simp add: sessions exec_def launcher_defs calls new_launcher_def numeral_2_eq_2)

text \<open>
  Claim C10. No operation assigns the \<open>terminal\<close> field: in every state a launcher
  reaches it is undefined. So \<open>terminate()\<close> never sends the "Execution terminated" notice
  to a terminal (no \<open>sendText\<close> is ever called), and all it does is call
  \<open>terminateConnection()\<close>.
\<close>

theorem terminal_never_assigned:
  assumes s: "s = exec ins new_launcher"
  shows "terminal s = None \<and> filter isSendText (trace s) = [] \<and>
         terminate s = terminateConnection s \<and>
         trace (terminate s) = trace s @ [TerminateConnection]"
proof -
  have "hist ins s"
    using s reach by simp
  then have "terminal s = None" and "filter isSendText (trace s) = []"
    by (simp_all add: hist_def)
  then show ?thesis
    by (simp add: terminate_def terminateConnection_def emit_def)
qed

theorem terminal_never_assigned_witness:
  "terminal (exec debugSession new_launcher) = None \<and>
   filter isSendText (trace (exec (debugSession @ [CallTerminate]) new_launcher)) = [] \<and>
   trace (terminate (exec debugSession new_launcher)) =
     trace (exec debugSession new_launcher) @ [TerminateConnection]"
  using terminal_never_assigned [OF refl, of debugSession]
    terminal_never_assigned [OF refl, of "debugSession @ [CallTerminate]"]
  by (simp add: sessions exec_def launcher_defs calls new_launcher_def)

text \<open>
  Claim C1 fails as stated: not every completion path invokes an exit callback. In the
  session below the worker fails the \<open>initialize\<close> request: the promise of \<open>run\<close> rejects
  with the worker's reason, \<open>doRun\<close> is over, the caller calls \<open>terminate()\<close>, and neither
  callback has been invoked: the promise of \<open>onExit()\<close> is still pending.
\<close>

theorem onExit_pending_after_failed_initialize_counterexample:
  "doRunPromise (exec initializeFails new_launcher) = Some (Rejected ''worker failed'') \<and>
   pc (exec initializeFails new_launcher) = Threw \<and>
   exitPromise (exec initializeFails new_launcher) = None \<and>
   filter isExit (trace (exec initializeFails new_launcher)) = []"
  by (simp add: sessions initializeFails_def exec_def launcher_defs calls new_launcher_def)

text \<open>
  Claim C1, as amended. On a launcher that is called once (\<open>run\<close>, \<open>debug\<close> or \<open>startRepl\<close>,
  one call in all), in every session the two exit callbacks are invoked at most once in
  total, and the promise of \<open>onExit()\<close> is settled exactly when one has been invoked.
  One is invoked when, and only when, the mode-specific run request has settled: the
  promise then settles with the outcome of the run request (resolved with its value or
  rejected with its reason). A session whose \<open>doRun\<close> fails before the run request is sent
  (a boot operation, \<open>initialize\<close> or \<open>createSyncConnection\<close> rejects) never invokes a
  callback, whatever happens later, and \<open>terminate()\<close> itself invokes none: there
  \<open>onExit()\<close> stays pending.
\<close>

theorem exit_callbacks_at_most_once:
  assumes s: "s = exec ins new_launcher" and one: "oneCall (ins @ later)"
  shows "length (filter isExit (trace s)) \<le> 1 \<and>
         (exitPromise s = None \<longleftrightarrow> filter isExit (trace s) = []) \<and>
         (\<forall>out. exitPromise s = Some out \<longrightarrow>
            filter isExit (trace s) = [exitEvent out] \<and> RunRequestSettled out \<in> set ins) \<and>
         (pc s = AwaitRunRequest \<longrightarrow>
            exitPromise (exec [RunRequestSettled res, Microtask, Microtask] s) = Some res) \<and>
         (pc s = Threw \<longrightarrow>
            exitPromise (exec later s) = None \<and> filter isExit (trace (exec later s)) = []) \<and>
         exitPromise (terminate s) = exitPromise s \<and>
         filter isExit (trace (terminate s)) = filter isExit (trace s)"
proof -
  have sh: "shape s" and hi: "hist ins s"
    using s reach by simp_all
  have ex: "filter isExit (trace s) = filter isExit (filter isOwn (trace s))"
    by (rule filter_own [symmetric]) (rule isExit_own)
  have exitEvent: "\<And>out. isExit (exitEvent out)"
    subgoal for out by (cases out) simp_all
    done
  have calls_exit: "\<And>a repository root b m syncConnection port.
      filter isExit (bootCalls a) = [] \<and> filter isExit (initCalls repository root b) = [] \<and>
      filter isExit (runCalls a syncConnection port) = []"
    subgoal for a by (cases a) (simp_all add: calls)
    done
  have a: "length (filter isExit (trace s)) \<le> 1 \<and>
         (exitPromise s = None \<longleftrightarrow> filter isExit (trace s) = []) \<and>
         (\<forall>out. exitPromise s = Some out \<longrightarrow>
            filter isExit (trace s) = [exitEvent out] \<and> RunRequestSettled out \<in> set ins)"
    using sh
  proof (cases rule: own_forms)
    case idle
    then show ?thesis by (simp add: ex)
  next
    case (boot a)
    then show ?thesis by (simp add: ex calls_exit)
  next
    case (init a repository root b m)
    then show ?thesis by (simp add: ex calls_exit)
  next
    case (sync a repository root b m)
    then show ?thesis by (simp add: ex calls_exit)
  next
    case (run a repository root b m syncConnection port)
    then show ?thesis by (simp add: ex calls_exit)
  next
    case (exit a repository root b m syncConnection port out)
    then show ?thesis using hi by (simp add: ex calls_exit exitEvent hist_def)
  qed
  have b: "pc s = AwaitRunRequest \<longrightarrow>
            exitPromise (exec [RunRequestSettled res, Microtask, Microtask] s) = Some res"
    using sh by (cases res) (auto simp: shape_def exec_def launcher_defs)
  have c: "pc s = Threw \<longrightarrow>
            exitPromise (exec later s) = None \<and> filter isExit (trace (exec later s)) = []"
    using threw_forever [of s later] a sh by (auto simp: shape_def)
  have d: "exitPromise (terminate s) = exitPromise s \<and>
         filter isExit (trace (terminate s)) = filter isExit (trace s)"
    by (simp add: launcher_defs split: option.splits)
  from a b c d show ?thesis by blast
qed

theorem exit_callbacks_at_most_once_witness:
  "oneCall (debugSession @ []) \<and> oneCall (replSession @ []) \<and>
   oneCall (initializeFails @ [RunRequestSettled (Fulfilled 0), Microtask, Microtask]) \<and>
   exitPromise (exec debugSession new_launcher) = Some (Rejected ''worker crashed'') \<and>
   filter isExit (trace (exec debugSession new_launcher)) = [ExitRejectCallback ''worker crashed''] \<and>
   RunRequestSettled (Rejected ''worker crashed'') \<in> set debugSession \<and>
   pc (exec replSession new_launcher) = AwaitRunRequest \<and>
   exitPromise (exec [RunRequestSettled (Fulfilled 0), Microtask, Microtask]
     (exec replSession new_launcher)) = Some (Fulfilled 0) \<and>
   pc (exec initializeFails new_launcher) = Threw \<and>
   exitPromise (exec [RunRequestSettled (Fulfilled 0), Microtask, Microtask]
     (exec initializeFails new_launcher)) = None"
  using exit_callbacks_at_most_once [OF refl, where ins = debugSession and later = "[]"]
    exit_callbacks_at_most_once [OF refl, where ins = replSession and later = "[]"
      and res = "Fulfilled 0"]
    exit_callbacks_at_most_once [OF refl, where ins = initializeFails
      and later = "[RunRequestSettled (Fulfilled 0), Microtask, Microtask]"]
  by (simp add: sessions initializeFails_def oneCall_def exec_def launcher_defs calls
        new_launcher_def)

text \<open>
  Claim C2 fails as stated: when the image fetch fails during boot, the promise of
  \<open>onExit()\<close> is not rejected, with a \<open>BootError\<close> or with anything else. It stays pending;
  it is the promise returned by \<open>run\<close> that rejects, with the reason of the fetch.
\<close>

theorem onExit_not_rejected_by_boot_failure_counterexample:
  "exitPromise (exec imageFetchFails new_launcher) = None \<and>
   exitPromise (exec imageFetchFails new_launcher) \<noteq> Some (Rejected ''image unavailable'') \<and>
   doRunPromise (exec imageFetchFails new_launcher) = Some (Rejected ''image unavailable'')"
  by (simp add: sessions imageFetchFails_def exec_def launcher_defs calls new_launcher_def)

text \<open>
  Claim C2, as amended. On a launcher that is called once: if one of the three boot
  operations (\<open>getConfig\<close>, \<open>sharedWasmBytes\<close>, \<open>createMessageConnection\<close>) rejects while
  \<open>Promise.all\<close> is awaited, then \<open>doRun\<close> is over for good (the session never reaches the running state), no request
  at all, so no \<open>initialize\<close>, is ever sent, and the promise returned by \<open>run\<close>, \<open>debug\<close>
  or \<open>startRepl\<close> rejects with that operation's own reason (the code has no \<open>BootError\<close>).
  The promise of \<open>onExit()\<close> is not rejected: it stays pending whatever happens later.
\<close>

theorem boot_failure_rejects_doRun:
  assumes s: "s = exec ins new_launcher" and one: "oneCall (ins @ i # later)"
    and pc: "pc s = AwaitAll"
    and i: "(i = GetConfigSettled (Rejected r) \<and> allConfig s = None) \<or>
            (i = SharedWasmBytesSettled (Rejected r) \<and> allWasmBytes s = None) \<or>
            (i = CreateMessageConnectionSettled (Rejected r) \<and> allConnection s = None)"
  shows "doRunPromise (exec (i # later) s) = Some (Rejected r) \<and>
         pc (exec (i # later) s) = Threw \<and>
         sentRequests (trace (exec (i # later) s)) = [] \<and>
         exitPromise (exec (i # later) s) = None \<and>
         filter isExit (trace (exec (i # later) s)) = []"
proof -
  have sh: "shape s"
    using s reach by simp
  have req: "sentRequests (trace s) = sentRequests (filter isOwn (trace s))"
    by (simp add: sentRequests_own)
  have ex: "filter isExit (trace s) = filter isExit (filter isOwn (trace s))"
    by (rule filter_own [symmetric]) (rule isExit_own)
  from sh pc obtain a where own: "filter isOwn (trace s) = bootCalls a" and pending: "exitPromise s = None"
    by (auto simp: shape_def)
  have "sentRequests (trace s) = []"
    unfolding req own by (simp add: calls)
  moreover have "filter isExit (trace s) = []"
    unfolding ex own by (simp add: calls)
  ultimately have before:
    "sentRequests (trace s) = [] \<and> exitPromise s = None \<and> filter isExit (trace s) = []"
    using pending by simp
  from i pc have st: "step i s = throw r s"
    by auto
  then have "pc (step i s) = Threw"
    by (simp add: throw_def)
  from threw_forever [OF this, of later] show ?thesis
    using before st by (simp add: exec_Cons throw_def)
qed

theorem boot_failure_rejects_doRun_witness:
  "oneCall imageFetchFails \<and>
   pc (exec [CallRun 1 ''app.py'' 7] new_launcher) = AwaitAll \<and>
   allConfig (exec [CallRun 1 ''app.py'' 7] new_launcher) = None \<and>
   doRunPromise (exec imageFetchFails new_launcher) = Some (Rejected ''image unavailable'') \<and>
   pc (exec imageFetchFails new_launcher) = Threw \<and>
   sentRequests (trace (exec imageFetchFails new_launcher)) = [] \<and>
   exitPromise (exec imageFetchFails new_launcher) = None"
  using boot_failure_rejects_doRun [OF refl, where ins = "[CallRun 1 ''app.py'' 7]"
      and i = "GetConfigSettled (Rejected ''image unavailable'')" and r = "''image unavailable''"
      and later = "[SharedWasmBytesSettled (Fulfilled [0, 1]), CreateMessageConnectionSettled (Fulfilled 3), Microtask]"]
  by (simp add: sessions imageFetchFails_def oneCall_def exec_def launcher_defs calls
        new_launcher_def)

text \<open>
  Claim C3 fails as stated: the order is the other way round. In scenario A the \<open>then\<close>
  reaction resolves the exit promise, and only then does the \<open>finally\<close> reaction call
  \<open>terminateConnection\<close>; no teardown precedes the completion, on success (the run
  session) or on failure (the debug session).
\<close>

theorem teardown_before_completion_counterexample:
  "trace (exec runSession new_launcher) =
     [GetConfig, SharedWasmBytes, CreateMessageConnection 1, Listen, OnNotification ''pathMappings'',
      SendRequest (Initialize ''repo'' ''/root'' [0, 1]) [], CreateSyncConnection 3,
      NewApiService ''Python WASM Execution'' 4, RegisterCharacterDeviceDriver (PtyDevice 7) True,
      SignalReady, SendRequest (ExecuteFile 5 ''app.py'') [5],
      ExitResolveCallback 0, TerminateConnection] \<and>
   \<not> precedes isTeardown isExit (trace (exec runSession new_launcher)) \<and>
   \<not> precedes isTeardown isExit (trace (exec debugSession new_launcher))"
  by (simp add: sessions exec_def launcher_defs calls new_launcher_def)

text \<open>
  Claim C3, as amended. When the mode-specific run request settles, with success or with
  failure, the exit callback is invoked first, which settles the promise of \<open>onExit()\<close>,
  and \<open>terminateConnection\<close> is called after it, by the \<open>finally\<close> reaction, whatever the
  outcome. Unless \<open>terminate()\<close> is called from outside, \<open>terminateConnection\<close> is never
  called before an exit callback has been invoked.
\<close>

theorem teardown_follows_completion:
  assumes s: "s = exec ins new_launcher"
  shows "(CallTerminate \<notin> set ins \<longrightarrow> precedes isExit isTeardown (trace s)) \<and>
         (pc s = ThenReaction out \<longrightarrow>
            exitPromise (exec [Microtask, Microtask] s) = Some out \<and>
            trace (exec [Microtask, Microtask] s) = trace s @ [exitEvent out] \<and>
            trace (exec [Microtask, Microtask, Microtask] s) =
              trace s @ [exitEvent out, TerminateConnection])"
proof -
  have sh: "shape s"
    using s reach by simp
  have "CallTerminate \<notin> set ins \<longrightarrow> precedes isExit isTeardown (trace s)"
    using s tear_reach [of ins] by (simp add: tear_def)
  moreover have "pc s = ThenReaction out \<longrightarrow>
            exitPromise (exec [Microtask, Microtask] s) = Some out \<and>
            trace (exec [Microtask, Microtask] s) = trace s @ [exitEvent out] \<and>
            trace (exec [Microtask, Microtask, Microtask] s) =
              trace s @ [exitEvent out, TerminateConnection]"
    using sh by (cases out) (auto simp: shape_def exec_def launcher_defs)
  ultimately show ?thesis by blast
qed

theorem teardown_follows_completion_witness:
  "CallTerminate \<notin> set runSession \<and>
   precedes isExit isTeardown (trace (exec runSession new_launcher)) \<and>
   pc (exec (CallRun 1 ''app.py'' 7 # bootInputs @ [RunRequestSettled (Rejected ''worker crashed'')]) new_launcher) =
     ThenReaction (Rejected ''worker crashed'') \<and>
   trace (exec [Microtask, Microtask, Microtask]
       (exec (CallRun 1 ''app.py'' 7 # bootInputs @ [RunRequestSettled (Rejected ''worker crashed'')]) new_launcher)) =
     trace (exec (CallRun 1 ''app.py'' 7 # bootInputs @ [RunRequestSettled (Rejected ''worker crashed'')]) new_launcher) @
     [ExitRejectCallback ''worker crashed'', TerminateConnection]"
  using teardown_follows_completion [OF refl, where ins = runSession]
    teardown_follows_completion [OF refl,
      where ins = "CallRun 1 ''app.py'' 7 # bootInputs @ [RunRequestSettled (Rejected ''worker crashed'')]"
        and out = "Rejected ''worker crashed''"]
  by (simp add: sessions exec_def launcher_defs calls new_launcher_def)

text \<open>
  Claim C9 fails as stated: not every failure of the preload is caught and logged. On the
  host below the extension activates and loads the workspace contents, and the promise
  that \<open>readFile\<close> returns for \<open>python.wasm\<close> rejects. That promise is dropped (\<open>void\<close>,
  line 119), so the \<open>catch\<close> clause never sees the rejection: nothing is logged.
\<close>

theorem readFile_rejection_not_logged_counterexample:
  "readFile unloggedHost (joinPath pythonUri ''python.wasm'') =
     Returns (Some (Rejected ''fetch failed'')) \<and>
   preloadPython unloggedHost =
     (Some (Fulfilled ()),
      [Activate, LoadWorkspaceContents pythonUri, ReadFile (joinPath pythonUri ''python.wasm'')]) \<and>
   filter isConsoleLog (snd (preloadPython unloggedHost)) = []"
  by (simp add: unloggedHost_def preloadPython_def preloadBody_def getRemoteHubExtension_def)

text \<open>
  Claim C9, as amended. The promise of \<open>preloadPython\<close> never rejects. An error thrown
  inside the \<open>try\<close> block, by a call that throws (\<open>activate\<close>, \<open>loadWorkspaceContents\<close>,
  \<open>readFile\<close>) or by an awaited promise that rejects (\<open>activate\<close>,
  \<open>loadWorkspaceContents\<close>), is caught and logged with \<open>console.log\<close>, and the promise
  fulfils; the code that awaits it then goes on as after a preload that succeeded:
  \<open>createDebugAdapterDescriptor\<close> returns the inline adapter, \<open>resolveDebugConfiguration\<close>
  and the command handlers go on with their own steps. The promise of \<open>readFile\<close> is not
  awaited: whatever becomes of it, a rejection too, is neither caught nor logged, and the
  preload promise fulfils all the same. When an awaited promise never settles (as when
  \<open>activate()\<close> hangs), the preload promise stays pending and the code that awaits it
  waits for ever.
\<close>

theorem preload_failure_swallowed:
  "fst (preloadPython h) \<noteq> Some (Rejected r) \<and>
   (fst (preloadBody h) = Abrupt error \<longrightarrow>
      preloadPython h = (Some (Fulfilled ()), snd (preloadBody h) @ [ConsoleLog error])) \<and>
   (getRemoteHubExtension h = Some remoteHub \<and> awaitCall (activate remoteHub) = Abrupt error \<longrightarrow>
      preloadPython h = (Some (Fulfilled ()), [Activate, ConsoleLog error])) \<and>
   (getRemoteHubExtension h = Some remoteHub \<and> awaitCall (activate remoteHub) = Normal api \<and>
    loadWorkspaceContents api = Some load \<and> awaitCall (load pythonUri) = Abrupt error \<longrightarrow>
      preloadPython h =
        (Some (Fulfilled ()), [Activate, LoadWorkspaceContents pythonUri, ConsoleLog error])) \<and>
   (getRemoteHubExtension h = Some remoteHub \<and> awaitCall (activate remoteHub) = Normal api \<and>
    loadWorkspaceContents api = Some load \<and> awaitCall (load pythonUri) = Normal loaded \<and>
    readFile h (joinPath pythonUri ''python.wasm'') = Throws error \<longrightarrow>
      preloadPython h =
        (Some (Fulfilled ()),
         [Activate, LoadWorkspaceContents pythonUri, ReadFile (joinPath pythonUri ''python.wasm''),
          ConsoleLog error])) \<and>
   (getRemoteHubExtension h = Some remoteHub \<and> awaitCall (activate remoteHub) = Normal api \<and>
    loadWorkspaceContents api = Some load \<and> awaitCall (load pythonUri) = Normal loaded \<and>
    readFile h (joinPath pythonUri ''python.wasm'') = Returns p \<longrightarrow>
      preloadPython h =
        (Some (Fulfilled ()),
         [Activate, LoadWorkspaceContents pythonUri, ReadFile (joinPath pythonUri ''python.wasm'')])) \<and>
   (fst (preloadBody h) = Normal () \<longrightarrow>
      fst (preloadPython h) = Some (Fulfilled ()) \<and> filter isConsoleLog (snd (preloadPython h)) = []) \<and>
   (fst (preloadPython h) = None \<longleftrightarrow> fst (preloadBody h) = Suspended) \<and>
   (getRemoteHubExtension h = Some remoteHub \<and> activate remoteHub = Returns None \<longrightarrow>
      fst (preloadPython h) = None) \<and>
   (fst (preloadBody h) \<noteq> Suspended \<longrightarrow>
      createDebugAdapterDescriptor (fst (preloadPython h)) extensionContext session =
        Some (Fulfilled (DebugAdapterInlineImplementation session extensionContext)) \<and>
      resolveDebugConfiguration (fst (preloadPython h)) editor showInformationMessage config =
        async (resolveAfterPreload editor showInformationMessage config) \<and>
      editorContentsCommand (fst (preloadPython h)) (Some target) activeDocument startDebugging =
        async (awaitCall (startDebugging target)) \<and>
      editorContentsCommand (fst (preloadPython h)) None (Some target) startDebugging =
        async (awaitCall (startDebugging target))) \<and>
   (fst (preloadBody h) = Suspended \<longrightarrow>
      createDebugAdapterDescriptor (fst (preloadPython h)) extensionContext session = None \<and>
      resolveDebugConfiguration (fst (preloadPython h)) editor showInformationMessage config = None \<and>
      editorContentsCommand (fst (preloadPython h)) (Some target) activeDocument startDebugging = None) \<and>
   editorContentsCommand (fst (preloadPython h)) None None startDebugging = Some (Fulfilled False) \<and>
   (\<not> falsy (config_type config) \<and> \<not> falsy (config_program config) \<longrightarrow>
      resolveAfterPreload editor showInformationMessage config = Normal (Some config)) \<and>
   (falsy (config_type config) \<and> falsy (config_request config) \<and> falsy (config_name config) \<longrightarrow>
      resolveAfterPreload (Some ''python'') showInformationMessage config =
        Normal (Some (config\<lparr>config_type := Some ''python-web-wasm'', config_name := Some ''Launch'',
          config_request := Some ''launch'', config_program := Some ''${file}'',
          config_stopOnEntry := Some False\<rparr>))) \<and>
   (falsy (config_program config) \<and> \<not> falsy (config_type config) \<longrightarrow>
      resolveAfterPreload editor showInformationMessage config =
        (case awaitCall showInformationMessage of
           Normal choice \<Rightarrow> Normal None | Abrupt r \<Rightarrow> Abrupt r | Suspended \<Rightarrow> Suspended))"
proof -
  have never: "fst (preloadPython h) \<noteq> Some (Rejected r)"
    by (cases "fst (preloadBody h)") (simp_all add: preloadPython_cases)
  have caught: "fst (preloadBody h) = Abrupt error \<longrightarrow>
      preloadPython h = (Some (Fulfilled ()), snd (preloadBody h) @ [ConsoleLog error])"
    by (simp add: preloadPython_cases)
  have act: "getRemoteHubExtension h = Some remoteHub \<and> awaitCall (activate remoteHub) = Abrupt error \<longrightarrow>
      preloadPython h = (Some (Fulfilled ()), [Activate, ConsoleLog error])"
    by (simp add: preloadPython_def preloadBody_def)
  have load: "getRemoteHubExtension h = Some remoteHub \<and> awaitCall (activate remoteHub) = Normal api \<and>
    loadWorkspaceContents api = Some load \<and> awaitCall (load pythonUri) = Abrupt error \<longrightarrow>
      preloadPython h =
        (Some (Fulfilled ()), [Activate, LoadWorkspaceContents pythonUri, ConsoleLog error])"
    by (simp add: preloadPython_def preloadBody_def)
  have rthrow: "getRemoteHubExtension h = Some remoteHub \<and> awaitCall (activate remoteHub) = Normal api \<and>
    loadWorkspaceContents api = Some load \<and> awaitCall (load pythonUri) = Normal loaded \<and>
    readFile h (joinPath pythonUri ''python.wasm'') = Throws error \<longrightarrow>
      preloadPython h =
        (Some (Fulfilled ()),
         [Activate, LoadWorkspaceContents pythonUri, ReadFile (joinPath pythonUri ''python.wasm''),
          ConsoleLog error])"
    by (simp add: preloadPython_def preloadBody_def)
  have rdrop: "getRemoteHubExtension h = Some remoteHub \<and> awaitCall (activate remoteHub) = Normal api \<and>
    loadWorkspaceContents api = Some load \<and> awaitCall (load pythonUri) = Normal loaded \<and>
    readFile h (joinPath pythonUri ''python.wasm'') = Returns p \<longrightarrow>
      preloadPython h =
        (Some (Fulfilled ()),
         [Activate, LoadWorkspaceContents pythonUri, ReadFile (joinPath pythonUri ''python.wasm'')])"
    by (simp add: preloadPython_def preloadBody_def)
  have quiet: "fst (preloadBody h) = Normal () \<longrightarrow>
      fst (preloadPython h) = Some (Fulfilled ()) \<and> filter isConsoleLog (snd (preloadPython h)) = []"
    by (auto simp: preloadPython_cases preloadBody_def
          split: option.splits completion.splits returned.splits)
  have pend: "fst (preloadPython h) = None \<longleftrightarrow> fst (preloadBody h) = Suspended"
    by (cases "fst (preloadBody h)") (simp_all add: preloadPython_cases)
  have hang: "getRemoteHubExtension h = Some remoteHub \<and> activate remoteHub = Returns None \<longrightarrow>
      fst (preloadPython h) = None"
    by (simp add: preloadPython_def preloadBody_def)
  have settled: "fst (preloadBody h) \<noteq> Suspended \<longrightarrow> fst (preloadPython h) = Some (Fulfilled ())"
    by (cases "fst (preloadBody h)") (simp_all add: preloadPython_cases)
  have aw1: "fst (preloadBody h) \<noteq> Suspended \<longrightarrow>
      createDebugAdapterDescriptor (fst (preloadPython h)) extensionContext session =
        Some (Fulfilled (DebugAdapterInlineImplementation session extensionContext)) \<and>
      resolveDebugConfiguration (fst (preloadPython h)) editor showInformationMessage config =
        async (resolveAfterPreload editor showInformationMessage config) \<and>
      editorContentsCommand (fst (preloadPython h)) (Some target) activeDocument startDebugging =
        async (awaitCall (startDebugging target)) \<and>
      editorContentsCommand (fst (preloadPython h)) None (Some target) startDebugging =
        async (awaitCall (startDebugging target))"
    using settled
    by (simp add: createDebugAdapterDescriptor_def resolveDebugConfiguration_def
          editorContentsCommand_def)
  have aw2: "fst (preloadBody h) = Suspended \<longrightarrow>
      createDebugAdapterDescriptor (fst (preloadPython h)) extensionContext session = None \<and>
      resolveDebugConfiguration (fst (preloadPython h)) editor showInformationMessage config = None \<and>
      editorContentsCommand (fst (preloadPython h)) (Some target) activeDocument startDebugging = None"
    using pend
    by (auto simp: createDebugAdapterDescriptor_def resolveDebugConfiguration_def
          editorContentsCommand_def)
  have aw3: "editorContentsCommand (fst (preloadPython h)) None None startDebugging = Some (Fulfilled False)"
    by (simp add: editorContentsCommand_def)
  have r1: "\<not> falsy (config_type config) \<and> \<not> falsy (config_program config) \<longrightarrow>
      resolveAfterPreload editor showInformationMessage config = Normal (Some config)"
    by (simp add: resolveAfterPreload_def defaultConfiguration_def)
  have r2: "falsy (config_type config) \<and> falsy (config_request config) \<and> falsy (config_name config) \<longrightarrow>
      resolveAfterPreload (Some ''python'') showInformationMessage config =
        Normal (Some (config\<lparr>config_type := Some ''python-web-wasm'', config_name := Some ''Launch'',
          config_request := Some ''launch'', config_program := Some ''${file}'',
          config_stopOnEntry := Some False\<rparr>))"
    by (simp add: resolveAfterPreload_def defaultConfiguration_def falsy_def)
  have r3: "falsy (config_program config) \<and> \<not> falsy (config_type config) \<longrightarrow>
      resolveAfterPreload editor showInformationMessage config =
        (case awaitCall showInformationMessage of
           Normal choice \<Rightarrow> Normal None | Abrupt r \<Rightarrow> Abrupt r | Suspended \<Rightarrow> Suspended)"
    by (simp add: resolveAfterPreload_def defaultConfiguration_def)
  show ?thesis
    by (intro conjI never caught act load rthrow rdrop quiet pend hang aw1 aw2 aw3 r1 r2 r3)
qed

theorem preload_failure_swallowed_witness:
  "getRemoteHubExtension failingHost = Some \<lparr> activate = Returns (Some (Rejected ''activation failed'')) \<rparr> \<and>
   fst (preloadBody failingHost) = Abrupt ''activation failed'' \<and>
   preloadPython failingHost = (Some (Fulfilled ()), [Activate, ConsoleLog ''activation failed'']) \<and>
   createDebugAdapterDescriptor (fst (preloadPython failingHost)) 1 2 =
     Some (Fulfilled (DebugAdapterInlineImplementation 2 1)) \<and>
   resolveDebugConfiguration (fst (preloadPython failingHost)) (Some ''python'') (Returns None)
       \<lparr>config_type = None, config_request = None, config_name = None, config_program = None,
        config_stopOnEntry = None\<rparr> =
     Some (Fulfilled (Some
       \<lparr>config_type = Some ''python-web-wasm'', config_request = Some ''launch'',
        config_name = Some ''Launch'', config_program = Some ''${file}'',
        config_stopOnEntry = Some False\<rparr>)) \<and>
   editorContentsCommand (fst (preloadPython failingHost)) (Some ''app.py'') None
       (\<lambda>u. Returns (Some (Fulfilled True))) = Some (Fulfilled True) \<and>
   fst (preloadBody hangingHost) = Suspended \<and>
   fst (preloadPython hangingHost) = None \<and>
   createDebugAdapterDescriptor (fst (preloadPython hangingHost)) 1 2 = None \<and>
   fst (preloadBody unloggedHost) = Normal () \<and>
   filter isConsoleLog (snd (preloadPython unloggedHost)) = []"
  using preload_failure_swallowed [where h = failingHost and error = "''activation failed''"
      and r = "''activation failed''" and extensionContext = 1 and session = 2
      and remoteHub = "\<lparr> activate = Returns (Some (Rejected ''activation failed'')) \<rparr>"
      and editor = "Some ''python''" and showInformationMessage = "Returns None"
      and config = "\<lparr>config_type = None, config_request = None, config_name = None,
        config_program = None, config_stopOnEntry = None\<rparr>"
      and target = "''app.py''" and activeDocument = None
      and startDebugging = "\<lambda>u. Returns (Some (Fulfilled True))"]
    preload_failure_swallowed [where h = hangingHost and extensionContext = 1 and session = 2]
    preload_failure_swallowed [where h = unloggedHost]
  by (simp add: failingHost_def hangingHost_def unloggedHost_def preloadPython_def preloadBody_def
        getRemoteHubExtension_def createDebugAdapterDescriptor_def resolveDebugConfiguration_def
        resolveAfterPreload_def defaultConfiguration_def editorContentsCommand_def falsy_def)

end
